theory Spec2Isabelle
  imports Main "HOL-Library.Sublist"
begin

section \<open>Strings\<close>

text \<open>
  Python strings are modelled as \<open>string\<close> (lists of 8-bit characters, read as the
  UTF-8 bytes of the text). \<open>str.lower()\<close> is modelled on the ASCII letters, where it
  adds 32 to the code of \<open>A\<close>..\<open>Z\<close>; every other byte is left as it is, so the model
  agrees with Python on ASCII text.
\<close>

definition is_upper :: "char \<Rightarrow> bool" where
  "is_upper c = (65 \<le> (of_char c :: nat) \<and> (of_char c :: nat) \<le> 90)"

definition lower_char :: "char \<Rightarrow> char" where
  "lower_char c = (if is_upper c then char_of ((of_char c :: nat) + 32) else c)"

definition lower :: "string \<Rightarrow> string" where
  "lower s = map lower_char s"

section \<open>Button identifiers: \<open>sanitize_id\<close>\<close>

text \<open>
  \<^verbatim>\<open>sanitized = re.sub(r'[^a-zA-Z0-9]', '_', name)\<close>,
  \<^verbatim>\<open>sanitized = re.sub(r'_+', '_', sanitized)\<close>,
  \<^verbatim>\<open>sanitized = sanitized.strip('_')\<close>.
  A code point outside ASCII is several bytes here and one character in Python; each
  becomes underscores in the first step and the second step merges the run, so the
  result is the same.
\<close>

definition is_alnum :: "char \<Rightarrow> bool" where
  "is_alnum c =
     (let n = (of_char c :: nat)
      in (97 \<le> n \<and> n \<le> 122) \<or> (65 \<le> n \<and> n \<le> 90) \<or> (48 \<le> n \<and> n \<le> 57))"

definition replace_non_alnum :: "string \<Rightarrow> string" where
  "replace_non_alnum s = map (\<lambda>c. if is_alnum c then c else CHR ''_'') s"

fun merge_underscores :: "string \<Rightarrow> string" where
  "merge_underscores (a # b # cs) =
     (if a = CHR ''_'' \<and> b = CHR ''_'' then merge_underscores (b # cs)
      else a # merge_underscores (b # cs))"
| "merge_underscores cs = cs"

definition strip_underscores :: "string \<Rightarrow> string" where
  "strip_underscores s =
     rev (dropWhile (\<lambda>c. c = CHR ''_'') (rev (dropWhile (\<lambda>c. c = CHR ''_'') s)))"

definition sanitize_id :: "string \<Rightarrow> string" where
  "sanitize_id name_str = strip_underscores (merge_underscores (replace_non_alnum name_str))"

definition love_button_id :: "string \<Rightarrow> string" where
  "love_button_id animal_name_str = ''love_'' @ sanitize_id animal_name_str"

definition nope_button_id :: "string \<Rightarrow> string" where
  "nope_button_id animal_name_str = ''nope_'' @ sanitize_id animal_name_str"

text \<open>
  The registry \<open>button_observers\<close> of \<open>search_results\<close>: a dictionary from button
  identifier to the observer made by \<open>create_rating_observer\<close>, which is determined by
  the animal name, the rating text and the rating key it closes over. For each row an
  observer is created only if its identifier is not in the dictionary yet.
\<close>

type_synonym observer = "string \<times> string \<times> string"

definition register_row :: "string \<Rightarrow> (string \<rightharpoonup> observer) \<Rightarrow> (string \<rightharpoonup> observer)" where
  "register_row animal_name_str button_observers =
     (let love_id = love_button_id animal_name_str;
          nope_id = nope_button_id animal_name_str;
          obs1 = (if button_observers love_id = None
                  then button_observers(love_id \<mapsto> (animal_name_str, ''Literally in love'', ''love''))
                  else button_observers)
      in (if obs1 nope_id = None
          then obs1(nope_id \<mapsto> (animal_name_str, ''Not my type'', ''nope''))
          else obs1))"

definition register_rows :: "string list \<Rightarrow> (string \<rightharpoonup> observer) \<Rightarrow> (string \<rightharpoonup> observer)" where
  "register_rows names button_observers = fold register_row names button_observers"

section \<open>The dataset\<close>

text \<open>
  A row of the table read from \<open>aquarium.csv\<close>. A cell is \<open>None\<close> where pandas holds
  NaN (a missing value); a cell that is present holds text. The optional column \<open>size\<close>,
  read through \<open>animal.get('size')\<close>, is \<open>None\<close> as well when the file does not have
  it. The columns \<open>range\<close> and \<open>size\<close> are named \<open>range_col\<close> and \<open>size_col\<close>.
\<close>

record animal =
  name :: "string option"
  scientific_name :: "string option"
  diet :: "string option"
  habitat :: "string option"
  range_col :: "string option"
  physical_characteristics :: "string option"
  fun_fact :: "string option"
  conservation_status :: "string option"
  image_url :: "string option"
  url :: "string option"
  size_col :: "string option"

definition sample_row :: "string \<Rightarrow> string \<Rightarrow> string \<Rightarrow> string \<Rightarrow> string \<Rightarrow> string \<Rightarrow> string \<Rightarrow> string \<Rightarrow> animal" where
  "sample_row n sn d h r pc ff cs =
     \<lparr>name = Some n, scientific_name = Some sn, diet = Some d, habitat = Some h,
      range_col = Some r, physical_characteristics = Some pc, fun_fact = Some ff,
      conservation_status = Some cs, image_url = Some '''', url = Some ''#'',
      size_col = None\<rparr>"

definition fallback_data :: "animal list" where
  "fallback_data =
     [sample_row ''Sample Fish'' ''Fishus sampleus'' ''Omnivore'' ''Ocean'' ''Global''
        ''Colorful'' ''Very colorful'' ''Stable'',
      sample_row ''Sample Shark'' ''Sharkus sampleus'' ''Carnivore'' ''Deep Sea'' ''Pacific''
        ''Large teeth'' ''Apex predator'' ''Vulnerable'',
      sample_row ''Sample Turtle'' ''Turtleus sampleus'' ''Herbivore'' ''Coastal'' ''Atlantic''
        ''Hard shell'' ''Long lived'' ''Endangered'']"

datatype load_error = FileNotFoundError

text \<open>
  The loader of \<open>src/persistence/motherduck/app.py\<close>: \<open>pd.read_csv\<close> inside
  \<open>try\<close>/\<open>except FileNotFoundError\<close>. The argument is the parsed file, \<open>None\<close> when the
  file does not exist; the result is the table and the lines printed.
\<close>

definition aquarium_data_md :: "string \<Rightarrow> animal list option \<Rightarrow> (load_error + animal list) \<times> string list" where
  "aquarium_data_md path csv_file =
     (case csv_file of
        Some rows \<Rightarrow> (Inr rows, [''Successfully loaded aquarium data from '' @ path])
      | None \<Rightarrow> (Inr fallback_data,
                 [''Could not find aquarium.csv at '' @ path, ''Using fallback sample data'']))"

text \<open>
  The loader of \<open>src/python/app.py\<close>: \<open>aquarium_data = pd.read_csv("aquarium.csv")\<close> at
  module level, with no handler.
\<close>

definition aquarium_data_py :: "animal list option \<Rightarrow> (load_error + animal list) \<times> string list" where
  "aquarium_data_py csv_file =
     (case csv_file of
        Some rows \<Rightarrow> (Inr rows, [])
      | None \<Rightarrow> (Inl FileNotFoundError, []))"

subsection \<open>Featured animals\<close>

definition featured_animal_names :: "string list" where
  "featured_animal_names =
     [''Sea Otter'', ''Beluga Whale'', ''Penguin'', ''Seahorse'',
      ''Sea Turtle'', ''Octopus'', ''Jellyfish'', ''Shark'']"

definition isin :: "string option \<Rightarrow> string list \<Rightarrow> bool" where
  "isin cell values = (case cell of None \<Rightarrow> False | Some s \<Rightarrow> s \<in> set values)"

definition featured_animals_df :: "animal list \<Rightarrow> animal list" where
  "featured_animals_df aquarium_data =
     (let featured = filter (\<lambda>a. isin (name a) featured_animal_names) aquarium_data
      in if length featured < 8 then take 8 aquarium_data else featured)"

section \<open>Regular expressions, as \<open>Series.str.contains\<close> reads its pattern\<close>

text \<open>
  \<open>Series.str.contains(pat, na=False)\<close> is called with its default \<open>regex=True\<close>: the
  pattern is compiled by Python's \<open>re\<close> and each cell is tested with \<open>re.search\<close>.
  The fragment of the pattern syntax modelled here: ordinary characters, \<open>.\<close> (any
  character but a newline), groups \<open>( )\<close>, alternation \<open>|\<close> and the quantifiers \<open>*\<close>,
  \<open>+\<close>, \<open>?\<close> applied once to the item before them. A pattern that leaves the fragment
  (a backslash, \<open>[\<close>, \<open>{\<close>, \<open>^\<close>, \<open>$\<close>, \<open>(?\<close>, or a quantifier right after a quantifier) compiles to
  \<open>Unmodelled\<close>, about which nothing is stated. The characters \<open>]\<close> and \<open>}\<close> on their own
  are ordinary characters for \<open>re\<close>. A match is a truth value here (greedy or not, the
  same strings match), and a character is a byte, as everywhere in this theory, so
  the model is that of \<open>re\<close> on ASCII patterns and text.
\<close>

datatype regex =
  Zero
  | Eps
  | Lit char
  | Dot
  | Seq regex regex
  | Alt regex regex
  | Star regex

datatype re_error = Nothing_to_repeat | Unbalanced_parenthesis | Missing_closing_parenthesis

datatype compile_result = Compiled regex | Re_error re_error | Unmodelled

text \<open>
  A frame of the parser: the finished branches of the group being read and the items
  of its open branch, both latest first.
\<close>

type_synonym frame = "regex list \<times> regex list"

definition seq_of :: "regex list \<Rightarrow> regex" where
  "seq_of items = foldr Seq (rev items) Eps"

definition close_frame :: "frame \<Rightarrow> regex" where
  "close_frame f = foldl (\<lambda>acc b. Alt b acc) (seq_of (snd f)) (fst f)"

definition quantify :: "char \<Rightarrow> regex \<Rightarrow> regex" where
  "quantify c r =
     (if c = CHR ''*'' then Star r
      else if c = CHR ''+'' then Seq r (Star r)
      else Alt r Eps)"

definition is_quantifier :: "char \<Rightarrow> bool" where
  "is_quantifier c = (c = CHR ''*'' \<or> c = CHR ''+'' \<or> c = CHR ''?'')"

definition outside_fragment :: "char \<Rightarrow> bool" where
  "outside_fragment c =
     (c = CHR 0x5C \<or> c = CHR ''['' \<or> c = CHR ''{'' \<or> c = CHR ''^'' \<or> c = CHR ''$'')"

text \<open>
  \<open>parse_re f fs q cs\<close>: \<open>f\<close> is the frame of the innermost open group, \<open>fs\<close> the frames
  of the groups around it, \<open>q\<close> says that the last item read was a quantifier, \<open>cs\<close> is
  the rest of the pattern.
\<close>

fun parse_re :: "frame \<Rightarrow> frame list \<Rightarrow> bool \<Rightarrow> string \<Rightarrow> compile_result" where
  "parse_re f [] q [] = Compiled (close_frame f)"
| "parse_re f (g # fs) q [] = Re_error Missing_closing_parenthesis"
| "parse_re f fs q (c # cs) =
     (if c = CHR ''('' then
        (case cs of
           d # ds \<Rightarrow> (if d = CHR ''?'' then Unmodelled else parse_re ([], []) (f # fs) False cs)
         | [] \<Rightarrow> parse_re ([], []) (f # fs) False cs)
      else if c = CHR '')'' then
        (case fs of
           [] \<Rightarrow> Re_error Unbalanced_parenthesis
         | g # gs \<Rightarrow> parse_re (fst g, close_frame f # snd g) gs False cs)
      else if c = CHR ''|'' then parse_re (seq_of (snd f) # fst f, []) fs False cs
      else if is_quantifier c then
        (if q then Unmodelled
         else (case snd f of
                 [] \<Rightarrow> Re_error Nothing_to_repeat
               | r # rs \<Rightarrow> parse_re (fst f, quantify c r # rs) fs True cs))
      else if c = CHR ''.'' then parse_re (fst f, Dot # snd f) fs False cs
      else if outside_fragment c then Unmodelled
      else parse_re (fst f, Lit c # snd f) fs False cs)"

definition re_compile :: "string \<Rightarrow> compile_result" where
  "re_compile pat = parse_re ([], []) [] False pat"

text \<open>Matching, by derivatives.\<close>

fun nullable :: "regex \<Rightarrow> bool" where
  "nullable Zero = False"
| "nullable Eps = True"
| "nullable (Lit c) = False"
| "nullable Dot = False"
| "nullable (Seq r s) = (nullable r \<and> nullable s)"
| "nullable (Alt r s) = (nullable r \<or> nullable s)"
| "nullable (Star r) = True"

fun deriv :: "char \<Rightarrow> regex \<Rightarrow> regex" where
  "deriv c Zero = Zero"
| "deriv c Eps = Zero"
| "deriv c (Lit d) = (if c = d then Eps else Zero)"
| "deriv c Dot = (if c = CHR 0x0A then Zero else Eps)"
| "deriv c (Seq r s) =
     (if nullable r then Alt (Seq (deriv c r) s) (deriv c s) else Seq (deriv c r) s)"
| "deriv c (Alt r s) = Alt (deriv c r) (deriv c s)"
| "deriv c (Star r) = Seq (deriv c r) (Star r)"

text \<open>\<open>re_match r s\<close>: some prefix of \<open>s\<close> matches \<open>r\<close> (Python's \<open>re.match\<close>, as a truth value).\<close>

fun re_match :: "regex \<Rightarrow> string \<Rightarrow> bool" where
  "re_match r [] = nullable r"
| "re_match r (c # cs) = (nullable r \<or> re_match (deriv c r) cs)"

text \<open>\<open>re_search r s\<close>: \<open>r\<close> matches somewhere in \<open>s\<close> (\<open>re.search\<close>, as a truth value).\<close>

fun re_search :: "regex \<Rightarrow> string \<Rightarrow> bool" where
  "re_search r [] = nullable r"
| "re_search r (c # cs) = (re_match r (c # cs) \<or> re_search r cs)"

section \<open>The search filter: \<open>filtered_data\<close>\<close>

text \<open>
  \<open>col.str.lower().str.contains(query_lower, na=False)\<close> on one cell: a missing cell
  stays missing under \<open>str.lower()\<close> and gives \<open>False\<close> (\<open>na=False\<close>).
\<close>

definition cell_contains :: "regex \<Rightarrow> string option \<Rightarrow> bool" where
  "cell_contains r cell = (case cell of None \<Rightarrow> False | Some v \<Rightarrow> re_search r (lower v))"

definition mask :: "regex \<Rightarrow> animal \<Rightarrow> bool" where
  "mask r a =
     (cell_contains r (name a) \<or> cell_contains r (scientific_name a) \<or>
      cell_contains r (diet a) \<or> cell_contains r (habitat a) \<or>
      cell_contains r (range_col a) \<or> cell_contains r (physical_characteristics a) \<or>
      cell_contains r (fun_fact a) \<or> cell_contains r (conservation_status a))"

text \<open>
  The \<open>.str\<close> accessor needs a column of text. \<open>read_csv\<close> gives a column in which every
  cell is missing a float dtype, on which \<open>.str\<close> raises \<open>AttributeError\<close>; a column with a
  cell of text, and every column of a table without rows, has the object dtype.
\<close>

definition column_is_text :: "(animal \<Rightarrow> string option) \<Rightarrow> animal list \<Rightarrow> bool" where
  "column_is_text col rows = (rows = [] \<or> list_ex (\<lambda>a. col a \<noteq> None) rows)"

datatype 'a outcome = Returns 'a | Raises re_error | Raises_AttributeError | Outside_model

text \<open>
  \<open>filtered_data\<close>, the same in both applications. The empty query returns the empty
  \<open>pd.DataFrame()\<close>. Otherwise the eight operands of the mask are evaluated from left
  to right: each takes \<open>.str\<close> of its column (\<open>AttributeError\<close> when the column is not
  text) and calls \<open>str.contains\<close> with the lowercased query as pattern, the first of which
  compiles it (and raises \<open>re.error\<close> when it does not compile). The rows whose mask is
  true are returned in dataset order.
\<close>

definition filtered_data :: "animal list \<Rightarrow> string \<Rightarrow> animal list outcome" where
  "filtered_data aquarium_data query =
     (if query = [] then Returns []
      else if \<not> column_is_text name aquarium_data then Raises_AttributeError
      else (case re_compile (lower query) of
              Compiled r \<Rightarrow>
                (if column_is_text scientific_name aquarium_data \<and>
                    column_is_text diet aquarium_data \<and>
                    column_is_text habitat aquarium_data \<and>
                    column_is_text range_col aquarium_data \<and>
                    column_is_text physical_characteristics aquarium_data \<and>
                    column_is_text fun_fact aquarium_data \<and>
                    column_is_text conservation_status aquarium_data
                 then Returns (filter (mask r) aquarium_data)
                 else Raises_AttributeError)
            | Re_error e \<Rightarrow> Raises e
            | Unmodelled \<Rightarrow> Outside_model))"

text \<open>
  The filter as the specification words it: a row matches when the lowercased query
  is a substring of the lowercased value of one of the eight fields.
\<close>

definition cell_has_substring :: "string \<Rightarrow> string option \<Rightarrow> bool" where
  "cell_has_substring q cell = (case cell of None \<Rightarrow> False | Some v \<Rightarrow> sublist (lower q) (lower v))"

definition substring_match :: "string \<Rightarrow> animal \<Rightarrow> bool" where
  "substring_match q a =
     (cell_has_substring q (name a) \<or> cell_has_substring q (scientific_name a) \<or>
      cell_has_substring q (diet a) \<or> cell_has_substring q (habitat a) \<or>
      cell_has_substring q (range_col a) \<or> cell_has_substring q (physical_characteristics a) \<or>
      cell_has_substring q (fun_fact a) \<or> cell_has_substring q (conservation_status a))"

definition substring_filter :: "animal list \<Rightarrow> string \<Rightarrow> animal list" where
  "substring_filter aquarium_data query = filter (substring_match query) aquarium_data"

text \<open>
  Text within ASCII, where \<open>lower\<close> is Python's \<open>str.lower()\<close> and a character of the model
  is a character of Python.
\<close>

definition is_ascii :: "string \<Rightarrow> bool" where
  "is_ascii s = list_all (\<lambda>c. (of_char c :: nat) < 128) s"

definition ascii_cell :: "string option \<Rightarrow> bool" where
  "ascii_cell cell = (case cell of None \<Rightarrow> True | Some v \<Rightarrow> is_ascii v)"

definition ascii_row :: "animal \<Rightarrow> bool" where
  "ascii_row a =
     (ascii_cell (name a) \<and> ascii_cell (scientific_name a) \<and> ascii_cell (diet a) \<and>
      ascii_cell (habitat a) \<and> ascii_cell (range_col a) \<and>
      ascii_cell (physical_characteristics a) \<and> ascii_cell (fun_fact a) \<and>
      ascii_cell (conservation_status a))"

text \<open>Every searched column is a column of text.\<close>

definition searched_columns_are_text :: "animal list \<Rightarrow> bool" where
  "searched_columns_are_text rows =
     (column_is_text name rows \<and> column_is_text scientific_name rows \<and>
      column_is_text diet rows \<and> column_is_text habitat rows \<and>
      column_is_text range_col rows \<and> column_is_text physical_characteristics rows \<and>
      column_is_text fun_fact rows \<and> column_is_text conservation_status rows)"

text \<open>The characters that \<open>re\<close> does not read as themselves.\<close>

definition is_special :: "char \<Rightarrow> bool" where
  "is_special c =
     (c = CHR ''('' \<or> c = CHR '')'' \<or> c = CHR ''|'' \<or> is_quantifier c \<or> c = CHR ''.'' \<or>
      outside_fragment c)"

section \<open>The ratings store\<close>

text \<open>
  A row of the table \<open>ratings\<close>. The columns \<open>id\<close> and \<open>timestamp\<close> are filled by their
  defaults (\<open>gen_random_uuid()\<close>, \<open>CURRENT_TIMESTAMP\<close>), whose values the environment of
  the call supplies.
\<close>

record rating_row =
  row_id :: string
  row_timestamp :: string
  session_id :: string
  animal_name :: string
  rating :: string

text \<open>
  A database: the table \<open>ratings\<close> (\<open>None\<close> while it does not exist) and whether the index
  \<open>idx_ratings_animal_rating\<close> exists.
\<close>

record database =
  ratings :: "rating_row list option"
  idx_ratings_animal_rating :: bool

datatype backend = Motherduck | Local_duckdb

text \<open>
  What the application writes to: the hosted database, the local database file and
  the fallback file \<open>ratings_backup.csv\<close> (its records, \<open>None\<close> while the file does not
  exist). The writer's quoting of a field is not modelled: a record is the list of its
  fields.
\<close>

record world =
  motherduck_db :: database
  local_db :: database
  ratings_backup :: "string list list option"

text \<open>
  The environment of one call: whether \<open>MOTHERDUCK_TOKEN\<close> is set, whether each
  \<open>duckdb.connect\<close> succeeds, and the values of \<open>gen_random_uuid()\<close>, \<open>CURRENT_TIMESTAMP\<close>
  and \<open>datetime.now().isoformat()\<close> at the call.
\<close>

record call_env =
  motherduck_token :: bool
  motherduck_up :: bool
  local_up :: bool
  gen_random_uuid :: string
  current_timestamp :: string
  now_isoformat :: string

text \<open>
  \<open>get_duckdb_connection\<close>: the hosted database when the token is set and the
  connection succeeds; otherwise (no token, or the exception handler) the local file,
  whose failure to connect leaves the function by an exception (\<open>None\<close>).
\<close>

definition get_duckdb_connection :: "call_env \<Rightarrow> backend option" where
  "get_duckdb_connection env =
     (if motherduck_token env \<and> motherduck_up env then Some Motherduck
      else if local_up env then Some Local_duckdb
      else None)"

definition db_of :: "backend \<Rightarrow> world \<Rightarrow> database" where
  "db_of b w = (case b of Motherduck \<Rightarrow> motherduck_db w | Local_duckdb \<Rightarrow> local_db w)"

definition set_db :: "backend \<Rightarrow> database \<Rightarrow> world \<Rightarrow> world" where
  "set_db b d w =
     (case b of Motherduck \<Rightarrow> w\<lparr>motherduck_db := d\<rparr> | Local_duckdb \<Rightarrow> w\<lparr>local_db := d\<rparr>)"

datatype sql_error = Catalog_error | Constraint_error

text \<open>
  \<open>CREATE TABLE [IF NOT EXISTS] ratings\<close>, \<open>CREATE INDEX [IF NOT EXISTS]
  idx_ratings_animal_rating ON ratings(animal_name, rating)\<close> and
  \<open>INSERT INTO ratings (session_id, animal_name, rating) VALUES (?, ?, ?)\<close>; the flag
  says whether \<open>IF NOT EXISTS\<close> is written. The column \<open>id\<close> is the primary key.
\<close>

definition create_table_ratings :: "bool \<Rightarrow> database \<Rightarrow> sql_error + database" where
  "create_table_ratings if_not_exists d =
     (case ratings d of
        Some rows \<Rightarrow> (if if_not_exists then Inr d else Inl Catalog_error)
      | None \<Rightarrow> Inr (d\<lparr>ratings := Some []\<rparr>))"

definition create_index_ratings :: "bool \<Rightarrow> database \<Rightarrow> sql_error + database" where
  "create_index_ratings if_not_exists d =
     (case ratings d of
        None \<Rightarrow> Inl Catalog_error
      | Some rows \<Rightarrow>
          (if idx_ratings_animal_rating d
           then (if if_not_exists then Inr d else Inl Catalog_error)
           else Inr (d\<lparr>idx_ratings_animal_rating := True\<rparr>)))"

definition insert_rating :: "rating_row \<Rightarrow> database \<Rightarrow> sql_error + database" where
  "insert_rating r d =
     (case ratings d of
        None \<Rightarrow> Inl Catalog_error
      | Some rows \<Rightarrow>
          (if row_id r \<in> set (map row_id rows) then Inl Constraint_error
           else Inr (d\<lparr>ratings := Some (rows @ [r])\<rparr>)))"

text \<open>
  \<open>initialize_ratings_table\<close>: both statements with \<open>IF NOT EXISTS\<close>; any exception gives
  \<open>False\<close>. A statement that was executed keeps its effect when a later one fails.
\<close>

definition initialize_ratings_table :: "call_env \<Rightarrow> world \<Rightarrow> world \<times> bool" where
  "initialize_ratings_table env w =
     (case get_duckdb_connection env of
        None \<Rightarrow> (w, False)
      | Some b \<Rightarrow>
          (case create_table_ratings True (db_of b w) of
             Inl e \<Rightarrow> (w, False)
           | Inr d1 \<Rightarrow>
               (case create_index_ratings True d1 of
                  Inl e \<Rightarrow> (set_db b d1 w, False)
                | Inr d2 \<Rightarrow> (set_db b d2 w, True))))"

definition save_rating_to_duckdb :: "call_env \<Rightarrow> string \<Rightarrow> string \<Rightarrow> string \<Rightarrow> world \<Rightarrow> world \<times> bool" where
  "save_rating_to_duckdb env a_name r_value sid w =
     (case get_duckdb_connection env of
        None \<Rightarrow> (w, False)
      | Some b \<Rightarrow>
          (case insert_rating
                  \<lparr>row_id = gen_random_uuid env, row_timestamp = current_timestamp env,
                   session_id = sid, animal_name = a_name, rating = r_value\<rparr>
                  (db_of b w) of
             Inl e \<Rightarrow> (w, False)
           | Inr d \<Rightarrow> (set_db b d w, True)))"

subsection \<open>The summary\<close>

text \<open>
  \<open>SELECT animal_name, COUNT(*) as n FROM ratings WHERE rating = ? GROUP BY animal_name
  ORDER BY n DESC LIMIT 10\<close>. DuckDB does not fix the order of groups with equal
  counts; here the sort is stable on the groups in the order of \<open>remdups\<close>.
\<close>

definition count_rows :: "string \<Rightarrow> string \<Rightarrow> rating_row list \<Rightarrow> nat" where
  "count_rows a_name r_value rows =
     length (filter (\<lambda>x. rating x = r_value \<and> animal_name x = a_name) rows)"

definition group_counts :: "string \<Rightarrow> rating_row list \<Rightarrow> (string \<times> nat) list" where
  "group_counts r_value rows =
     map (\<lambda>a. (a, count_rows a r_value rows))
       (remdups (map animal_name (filter (\<lambda>x. rating x = r_value) rows)))"

definition order_by_n_desc :: "(string \<times> nat) list \<Rightarrow> (string \<times> nat) list" where
  "order_by_n_desc groups = sort_key (\<lambda>p. - int (snd p)) groups"

definition top10 :: "string \<Rightarrow> rating_row list \<Rightarrow> (string \<times> nat) list" where
  "top10 r_value rows = take 10 (order_by_n_desc (group_counts r_value rows))"

record ratings_summary =
  love :: "(string \<times> nat) list"
  nope :: "(string \<times> nat) list"

text \<open>
  \<open>get_ratings_summary\<close>: \<open>None\<close> when no connection is made (the outer handler), when
  \<open>SELECT COUNT(*) FROM ratings\<close> fails (no table) and when it returns 0.
\<close>

definition get_ratings_summary :: "call_env \<Rightarrow> world \<Rightarrow> ratings_summary option" where
  "get_ratings_summary env w =
     (case get_duckdb_connection env of
        None \<Rightarrow> None
      | Some b \<Rightarrow>
          (case ratings (db_of b w) of
             None \<Rightarrow> None
           | Some rows \<Rightarrow>
               (if length rows = 0 then None
                else Some \<lparr>love = top10 ''Literally in love'' rows,
                           nope = top10 ''Not my type'' rows\<rparr>)))"



section \<open>The session: saving a rating and the rating handler\<close>

text \<open>
  \<open>session_id = f"session_{datetime.now().strftime('%Y%m%d_%H%M%S')}_{uuid.uuid4().hex[:8]}"\<close>
\<close>

definition new_session_id :: "string \<Rightarrow> string \<Rightarrow> string" where
  "new_session_id stamp hex8 = ''session_'' @ stamp @ ''_'' @ hex8"

definition backup_header :: "string list" where
  "backup_header = [''timestamp'', ''session_id'', ''animal_name'', ''rating'']"

text \<open>
  \<open>save_rating\<close>: when \<open>save_rating_to_duckdb\<close> returns \<open>False\<close>, the one-row frame with
  the columns \<open>timestamp, session_id, animal_name, rating\<close> is written by \<open>to_csv\<close>: with
  its header when \<open>ratings_backup.csv\<close> does not exist, appended without header
  otherwise. Writing the file is taken to succeed.
\<close>

definition save_rating :: "call_env \<Rightarrow> string \<Rightarrow> string \<Rightarrow> string \<Rightarrow> world \<Rightarrow> world" where
  "save_rating env a_name r_value sid w =
     (let saved = save_rating_to_duckdb env a_name r_value sid w;
          rating_data = [now_isoformat env, sid, a_name, r_value]
      in if snd saved then fst saved
         else (case ratings_backup (fst saved) of
                 None \<Rightarrow> (fst saved)\<lparr>ratings_backup := Some [backup_header, rating_data]\<rparr>
               | Some recs \<Rightarrow> (fst saved)\<lparr>ratings_backup := Some (recs @ [rating_data])\<rparr>))"

datatype notification = Recorded_love string | Noted_not_your_type string

text \<open>
  The state a rating handler reads and writes: the reactive values \<open>rated_animals\<close> (a
  dictionary from animal name to rating key) and \<open>ratings_trigger\<close>, the notifications
  shown so far, and the stores.
\<close>

record session =
  rated_animals :: "string \<rightharpoonup> string"
  ratings_trigger :: nat
  notifications :: "notification list"
  stores :: world

text \<open>
  \<open>rating_handler\<close> of \<open>create_rating_observer(animal_name, button_id, rating_type,
  rating_key)\<close>. \<open>button_value\<close> is the value of the button's input, \<open>None\<close> when reading it
  raises (the handler then ignores the run).
\<close>

definition rating_handler :: "call_env \<Rightarrow> string \<Rightarrow> string \<Rightarrow> string \<Rightarrow> string \<Rightarrow> int option \<Rightarrow> session \<Rightarrow> session" where
  "rating_handler env sid a_name rating_type rating_key button_value st =
     (case button_value of
        None \<Rightarrow> st
      | Some v \<Rightarrow>
          (if v \<noteq> 0 \<and> v > 0 then
             (if rated_animals st a_name = None then
                st\<lparr>stores := save_rating env a_name rating_type sid (stores st),
                   rated_animals := (rated_animals st)(a_name \<mapsto> rating_key),
                   ratings_trigger := ratings_trigger st + 1,
                   notifications := notifications st @
                     [if rating_key = ''love'' then Recorded_love a_name
                      else Noted_not_your_type a_name]\<rparr>
              else st)
           else st))"

text \<open>A run of a handler: its environment, the observer's three values and the button's value.\<close>

type_synonym handler_run = "call_env \<times> string \<times> string \<times> string \<times> int option"

definition run_handler :: "string \<Rightarrow> handler_run \<Rightarrow> session \<Rightarrow> session" where
  "run_handler sid h st =
     rating_handler (fst h) sid (fst (snd h)) (fst (snd (snd h))) (fst (snd (snd (snd h))))
       (snd (snd (snd (snd h)))) st"

definition run_handlers :: "string \<Rightarrow> handler_run list \<Rightarrow> session \<Rightarrow> session" where
  "run_handlers sid hs st = fold (run_handler sid) hs st"

text \<open>
  The rating events recorded for a session and an animal: rows of the two tables and
  records of the fallback file that carry both.
\<close>

definition rows_for :: "string \<Rightarrow> string \<Rightarrow> database \<Rightarrow> nat" where
  "rows_for sid a_name d =
     (case ratings d of
        None \<Rightarrow> 0
      | Some rows \<Rightarrow> length (filter (\<lambda>x. session_id x = sid \<and> animal_name x = a_name) rows))"

definition is_record_for :: "string \<Rightarrow> string \<Rightarrow> string list \<Rightarrow> bool" where
  "is_record_for sid a_name rec =
     (case rec of
        [t, s, a, r] \<Rightarrow> s = sid \<and> a = a_name
      | _ \<Rightarrow> False)"

definition records_for :: "string \<Rightarrow> string \<Rightarrow> string list list option \<Rightarrow> nat" where
  "records_for sid a_name file =
     (case file of None \<Rightarrow> 0 | Some recs \<Rightarrow> length (filter (is_record_for sid a_name) recs))"

definition recorded :: "string \<Rightarrow> string \<Rightarrow> world \<Rightarrow> nat" where
  "recorded sid a_name w =
     rows_for sid a_name (motherduck_db w) + rows_for sid a_name (local_db w) +
     records_for sid a_name (ratings_backup w)"

text \<open>
  The last element of a card in \<open>search_results\<close>: the acknowledgment when the animal's
  name is in \<open>rated_animals\<close>, the two buttons otherwise.
\<close>

datatype rating_area =
  Thank_you_love
  | Thank_you_nope
  | Rating_buttons string string

definition rating_area_of :: "(string \<rightharpoonup> string) \<Rightarrow> string \<Rightarrow> rating_area" where
  "rating_area_of current_ratings a_name =
     (case current_ratings a_name of
        Some rating_key \<Rightarrow> (if rating_key = ''love'' then Thank_you_love else Thank_you_nope)
      | None \<Rightarrow> Rating_buttons (love_button_id a_name) (nope_button_id a_name))"

section \<open>The summary as the specification words it\<close>

text \<open>
  A list of (animal name, count) pairs is a top-10 list of the rows for a rating
  value when it has at most 10 pairs, one pair per animal, each count is the number of
  rows of that animal with that rating value (and is not 0), the counts descend, and
  an animal with such rows that is left out is left out because the list is full and
  no listed count is smaller than its own. The order among equal counts is left open.
\<close>

definition spec_top10 :: "string \<Rightarrow> rating_row list \<Rightarrow> (string \<times> nat) list \<Rightarrow> bool" where
  "spec_top10 r_value rows xs =
     (length xs \<le> 10 \<and>
      distinct (map fst xs) \<and>
      sorted_wrt (\<lambda>p q. snd q \<le> snd p) xs \<and>
      list_all (\<lambda>p. snd p = count_rows (fst p) r_value rows \<and> 0 < snd p) xs \<and>
      list_all (\<lambda>x. rating x \<noteq> r_value \<or> animal_name x \<in> set (map fst xs) \<or>
                  (length xs = 10 \<and>
                   list_all (\<lambda>p. count_rows (animal_name x) r_value rows \<le> snd p) xs)) rows)"

section \<open>Concrete inputs\<close>

definition env_local :: call_env where
  "env_local =
     \<lparr>motherduck_token = False, motherduck_up = False, local_up = True,
      gen_random_uuid = ''8c1d'', current_timestamp = ''2025-09-17 10:00:00'',
      now_isoformat = ''2025-09-17T10:00:00''\<rparr>"

definition env_down :: call_env where
  "env_down =
     \<lparr>motherduck_token = False, motherduck_up = False, local_up = False,
      gen_random_uuid = ''8c1d'', current_timestamp = ''2025-09-17 10:00:00'',
      now_isoformat = ''2025-09-17T10:00:00''\<rparr>"

text \<open>The token is set and the hosted database answers; the same with the hosted database out of reach.\<close>

definition env_hosted :: call_env where
  "env_hosted =
     \<lparr>motherduck_token = True, motherduck_up = True, local_up = True,
      gen_random_uuid = ''8c1d'', current_timestamp = ''2025-09-17 10:00:00'',
      now_isoformat = ''2025-09-17T10:00:00''\<rparr>"

definition env_hosted_lost :: call_env where
  "env_hosted_lost =
     \<lparr>motherduck_token = True, motherduck_up = False, local_up = True,
      gen_random_uuid = ''8c1e'', current_timestamp = ''2025-09-17 10:00:05'',
      now_isoformat = ''2025-09-17T10:00:05''\<rparr>"

definition no_tables :: database where
  "no_tables = \<lparr>ratings = None, idx_ratings_animal_rating = False\<rparr>"

definition new_world :: world where
  "new_world = \<lparr>motherduck_db = no_tables, local_db = no_tables, ratings_backup = None\<rparr>"

definition vote :: "string \<Rightarrow> string \<Rightarrow> string \<Rightarrow> rating_row" where
  "vote i a r =
     \<lparr>row_id = i, row_timestamp = ''2025-09-17 09:00:00'',
      session_id = ''session_20250917_090000_0a1b2c3d'', animal_name = a, rating = r\<rparr>"

definition world_of :: "rating_row list \<Rightarrow> world" where
  "world_of rows =
     \<lparr>motherduck_db = no_tables,
      local_db = \<lparr>ratings = Some rows, idx_ratings_animal_rating = True\<rparr>,
      ratings_backup = None\<rparr>"


definition few_rows :: "rating_row list" where
  "few_rows =
     [vote ''01'' ''Shark'' ''Literally in love'',
      vote ''02'' ''Sea Otter'' ''Not my type'',
      vote ''03'' ''Sea Otter'' ''Literally in love'',
      vote ''04'' ''Shark'' ''Literally in love'']"


definition featured_rows :: "animal list" where
  "featured_rows =
     map (\<lambda>n. sample_row n ''sp.'' ''Carnivore'' ''Ocean'' ''Global'' ''Sleek'' ''Swims'' ''Stable'')
       (''Manta Ray'' # featured_animal_names)"

text \<open>A table of one row in which the column \<open>diet\<close> has no value.\<close>

definition no_diet_rows :: "animal list" where
  "no_diet_rows =
     [(sample_row ''Shark'' ''Selachimorpha'' ''Carnivore'' ''Ocean'' ''Global'' ''Sleek''
         ''Swims'' ''Stable'')\<lparr>diet := None\<rparr>]"

definition new_session :: session where
  "new_session =
     \<lparr>rated_animals = Map.empty, ratings_trigger = 0, notifications = [], stores = new_world\<rparr>"

text \<open>A click on the love button of the shark while no database can be reached.\<close>

definition love_click :: handler_run where
  "love_click = (env_down, ''Shark'', ''Literally in love'', ''love'', Some 1)"

text \<open>A later run of the handler of the shark's nope button.\<close>

definition nope_click :: handler_run where
  "nope_click = (env_local, ''Shark'', ''Not my type'', ''nope'', Some 1)"

section \<open>Button identifiers collide\<close>

lemma sanitize_id_Sea_Otter: "sanitize_id ''Sea Otter'' = ''Sea_Otter''"
  by (simp add: sanitize_id_def strip_underscores_def replace_non_alnum_def is_alnum_def)

lemma sanitize_id_Sea_dash_Otter: "sanitize_id ''Sea-Otter'' = ''Sea_Otter''"
  by (simp add: sanitize_id_def strip_underscores_def replace_non_alnum_def is_alnum_def)

text \<open>
  Claim C9: \<open>sanitize_id\<close> is not injective on animal names. The names \<open>Sea Otter\<close> and
  \<open>Sea-Otter\<close> differ only in the character between the two words and get the same
  identifier, so their love buttons share one input identifier and so do their nope
  buttons; when both rows are rendered, the observer kept under each identifier is the
  one created for the first row.
\<close>

theorem sanitize_id_collides:
  "''Sea Otter'' \<noteq> ''Sea-Otter'' \<and>
   sanitize_id ''Sea Otter'' = sanitize_id ''Sea-Otter'' \<and>
   \<not> inj sanitize_id \<and>
   love_button_id ''Sea Otter'' = love_button_id ''Sea-Otter'' \<and>
   nope_button_id ''Sea Otter'' = nope_button_id ''Sea-Otter'' \<and>
   register_rows [''Sea Otter'', ''Sea-Otter''] Map.empty (love_button_id ''Sea-Otter'') =
     Some (''Sea Otter'', ''Literally in love'', ''love'') \<and>
   register_rows [''Sea Otter'', ''Sea-Otter''] Map.empty (nope_button_id ''Sea-Otter'') =
     Some (''Sea Otter'', ''Not my type'', ''nope'')"
proof -
  have ne: "''Sea Otter'' \<noteq> ''Sea-Otter''" by simp
  have eq: "sanitize_id ''Sea Otter'' = sanitize_id ''Sea-Otter''"
    by (simp only: sanitize_id_Sea_Otter sanitize_id_Sea_dash_Otter)
  have ninj: "\<not> inj sanitize_id"
    using ne eq by (auto simp only: inj_def)
  have reg1: "register_rows [''Sea Otter'', ''Sea-Otter''] Map.empty (love_button_id ''Sea-Otter'') =
     Some (''Sea Otter'', ''Literally in love'', ''love'')"
    by (simp add: register_rows_def register_row_def love_button_id_def nope_button_id_def
        sanitize_id_Sea_Otter sanitize_id_Sea_dash_Otter)
  have reg2: "register_rows [''Sea Otter'', ''Sea-Otter''] Map.empty (nope_button_id ''Sea-Otter'') =
     Some (''Sea Otter'', ''Not my type'', ''nope'')"
    by (simp add: register_rows_def register_row_def love_button_id_def nope_button_id_def
        sanitize_id_Sea_Otter sanitize_id_Sea_dash_Otter)
  show ?thesis
    using ne eq ninj reg1 reg2 by (simp add: love_button_id_def nope_button_id_def)
qed

section \<open>The dataset loader\<close>

text \<open>
  Claim C6: when \<open>aquarium.csv\<close> is absent, the loader of the application with
  persistence returns the fixed three-row sample table and prints two lines, while the
  loader of \<open>src/python/app.py\<close> ends with \<open>FileNotFoundError\<close>.
\<close>

theorem aquarium_data_absent_file:
  "aquarium_data_md path None =
     (Inr fallback_data, [''Could not find aquarium.csv at '' @ path, ''Using fallback sample data'']) \<and>
   length fallback_data = 3 \<and>
   aquarium_data_py None = (Inl FileNotFoundError, [])"
  by (simp add: aquarium_data_md_def aquarium_data_py_def fallback_data_def)

section \<open>Featured animals\<close>

text \<open>
  Claim C10: the featured animals are the rows whose name is in the fixed list of
  eight names when there are at least 8 such rows, and the first 8 rows of the dataset
  otherwise.
\<close>

theorem featured_animals_df_rows:
  "(8 \<le> length (filter (\<lambda>a. isin (name a) featured_animal_names) D) \<longrightarrow>
      featured_animals_df D = filter (\<lambda>a. isin (name a) featured_animal_names) D) \<and>
   (length (filter (\<lambda>a. isin (name a) featured_animal_names) D) < 8 \<longrightarrow>
      featured_animals_df D = take 8 D)"
  by (simp add: featured_animals_df_def Let_def)

theorem featured_animals_df_rows_witness:
  "8 \<le> length (filter (\<lambda>a. isin (name a) featured_animal_names) featured_rows) \<and>
   featured_animals_df featured_rows = tl featured_rows \<and>
   length (filter (\<lambda>a. isin (name a) featured_animal_names) fallback_data) < 8 \<and>
   featured_animals_df fallback_data = take 8 fallback_data"
proof -
  have f: "filter (\<lambda>a. isin (name a) featured_animal_names) featured_rows = tl featured_rows"
    by code_simp
  have l: "length (tl featured_rows) = 8" by code_simp
  have g: "filter (\<lambda>a. isin (name a) featured_animal_names) fallback_data = []"
    by code_simp
  from featured_animals_df_rows [of featured_rows] featured_animals_df_rows [of fallback_data]
    f l g show ?thesis by simp
qed

section \<open>The search filter\<close>

text \<open>
  Claim C2: for every dataset, the empty query returns the empty result, not the
  dataset.
\<close>

theorem filtered_data_empty_query: "filtered_data D [] = Returns []"
  by (simp add: filtered_data_def)

subsection \<open>Queries without special characters\<close>

lemma re_match_Alt: "re_match (Alt r s) xs = (re_match r xs \<or> re_match s xs)"
  by (induction xs arbitrary: r s) auto

lemma re_match_Seq_Zero: "re_match (Seq Zero r) xs = False"
  by (induction xs) auto

lemma re_match_Seq_Eps: "re_match (Seq Eps r) xs = re_match r xs"
  by (cases xs) (auto simp: re_match_Alt re_match_Seq_Zero)

lemma re_match_literals: "re_match (foldr Seq (map Lit q) Eps) xs = prefix q xs"
proof (induction q arbitrary: xs)
  case Nil
  then show ?case by (cases xs) auto
next
  case (Cons a q)
  then show ?case
    by (cases xs) (auto simp: re_match_Seq_Eps re_match_Seq_Zero)
qed

lemma nullable_literals: "nullable (foldr Seq (map Lit q) Eps) = (q = [])"
  by (cases q) auto

lemma re_search_literals: "re_search (foldr Seq (map Lit q) Eps) xs = sublist q xs"
proof (induction xs)
  case Nil
  then show ?case by (simp add: nullable_literals)
next
  case (Cons c cs)
  then show ?case
    by (simp only: re_search.simps re_match_literals sublist_Cons_right)
qed

lemma parse_re_plain:
  "\<not> list_ex is_special cs \<Longrightarrow>
   parse_re (alts, cur) fs q cs = parse_re (alts, rev (map Lit cs) @ cur) fs False []"
proof (induction cs arbitrary: cur q)
  case Nil
  then show ?case by (cases fs) auto
next
  case (Cons c cs)
  from Cons.prems have c: "\<not> is_special c" and cs: "\<not> list_ex is_special cs" by auto
  from c have "parse_re (alts, cur) fs q (c # cs) = parse_re (alts, Lit c # cur) fs False cs"
    by (auto simp: is_special_def)
  also have "\<dots> = parse_re (alts, rev (map Lit cs) @ Lit c # cur) fs False []"
    using Cons.IH [OF cs] .
  finally show ?case by simp
qed

lemma re_compile_plain:
  "\<not> list_ex is_special q \<Longrightarrow> re_compile q = Compiled (foldr Seq (map Lit q) Eps)"
  by (simp add: re_compile_def parse_re_plain close_frame_def seq_of_def)

lemma special_code:
  "is_special d \<Longrightarrow> (of_char d :: nat) < 65 \<or> (90 < (of_char d :: nat) \<and> (of_char d :: nat) < 97) \<or> 122 < (of_char d :: nat)"
  by (auto simp: is_special_def is_quantifier_def outside_fragment_def)

lemma lower_char_code:
  "is_upper c \<Longrightarrow> (of_char (lower_char c) :: nat) = of_char c + 32"
  by (simp add: lower_char_def is_upper_def)

lemma lower_char_not_special: "\<not> is_special c \<Longrightarrow> \<not> is_special (lower_char c)"
proof (cases "is_upper c")
  case True
  assume "\<not> is_special c"
  show ?thesis
  proof
    assume "is_special (lower_char c)"
    from special_code [OF this] lower_char_code [OF True] True show False
      by (simp add: is_upper_def)
  qed
next
  case False
  assume "\<not> is_special c"
  with False show ?thesis by (simp add: lower_char_def)
qed

lemma lower_not_special: "\<not> list_ex is_special q \<Longrightarrow> \<not> list_ex is_special (lower q)"
  by (induction q) (auto simp: lower_def lower_char_not_special)

lemma cell_contains_plain:
  "cell_contains (foldr Seq (map Lit (lower q)) Eps) cell = cell_has_substring q cell"
  by (cases cell) (simp_all add: cell_contains_def cell_has_substring_def re_search_literals)

lemma mask_plain: "mask (foldr Seq (map Lit (lower q)) Eps) = substring_match q"
  by (rule ext) (simp add: mask_def substring_match_def cell_contains_plain)

text \<open>
  On ASCII text, when every searched column is a column of text, a non-empty query
  without special characters selects the rows of the substring filter.
\<close>

lemma filtered_data_plain_query:
  assumes "q \<noteq> []" and "\<not> list_ex is_special q" and "is_ascii q"
    and "list_all ascii_row D" and "searched_columns_are_text D"
  shows "filtered_data D q = Returns (substring_filter D q)"
  using assms(1,2,5)
  by (simp add: filtered_data_def re_compile_plain lower_not_special mask_plain
      substring_filter_def searched_columns_are_text_def)

text \<open>A column without any value: every non-empty query raises \<open>AttributeError\<close>.\<close>

lemma filtered_data_column_without_values:
  "filtered_data no_diet_rows ''shark'' = Raises_AttributeError"
  by code_simp

subsection \<open>Queries with special characters\<close>

text \<open>
  Claim C1: a non-empty query should select exactly the rows in which the lowercased
  query is a substring of one of the eight lowercased fields, also when it contains
  \<open>.\<close>, \<open>(\<close>, \<open>*\<close> or \<open>[\<close>. The code reads the query as a regular expression: on the
  three-row sample table, where no field contains a dot, the query \<open>.\<close> returns every
  row, and the queries \<open>(\<close> and \<open>*\<close> raise \<open>re.error\<close>, where the substring filter returns
  no row. (By \<open>filtered_data_plain_query\<close> the two agree on ASCII text for every
  non-empty query without special characters, when every searched column is text.)
\<close>

theorem filtered_data_reads_query_as_pattern:
  "filtered_data fallback_data ''.'' = Returns fallback_data \<and>
   substring_filter fallback_data ''.'' = [] \<and>
   filtered_data fallback_data ''('' = Raises Missing_closing_parenthesis \<and>
   substring_filter fallback_data ''('' = [] \<and>
   filtered_data fallback_data ''*'' = Raises Nothing_to_repeat"
  by code_simp

section \<open>Initialising the ratings table\<close>

lemma db_of_set_db: "db_of b (set_db b d w) = d"
  by (cases b) (simp_all add: db_of_def set_db_def)

lemma set_db_set_db: "set_db b d (set_db b d' w) = set_db b d w"
  by (cases b) (simp_all add: set_db_def)

lemma set_db_db_of: "set_db b (db_of b w) w = w"
  by (cases b) (simp_all add: set_db_def db_of_def)

text \<open>
  Claim C8, amended: initialising twice gives what initialising once gives when
  both calls reach the same database. For every starting state, a second call that
  reaches the same database as the first changes nothing and returns what the first
  returned; the call returns \<open>True\<close> exactly when a connection is made, and then the
  database has the table (with the rows it had, none if it is new) and the index.
\<close>

theorem initialize_ratings_table_idempotent:
  assumes "get_duckdb_connection env2 = get_duckdb_connection env1"
  shows "initialize_ratings_table env2 (fst (initialize_ratings_table env1 w)) =
           initialize_ratings_table env1 w \<and>
         snd (initialize_ratings_table env1 w) = (get_duckdb_connection env1 \<noteq> None) \<and>
         (case get_duckdb_connection env1 of
            None \<Rightarrow> fst (initialize_ratings_table env1 w) = w
          | Some b \<Rightarrow>
              db_of b (fst (initialize_ratings_table env1 w)) =
                \<lparr>ratings = Some (case ratings (db_of b w) of None \<Rightarrow> [] | Some rows \<Rightarrow> rows),
                 idx_ratings_animal_rating = True\<rparr>)"
proof (cases "get_duckdb_connection env1")
  case None
  then show ?thesis using assms by (simp add: initialize_ratings_table_def)
next
  case (Some b)
  show ?thesis
  proof (cases "ratings (db_of b w)")
    case None
    then show ?thesis using Some assms
      by (simp add: initialize_ratings_table_def create_table_ratings_def
          create_index_ratings_def db_of_set_db set_db_set_db)
  next
    case (Some rows)
    then show ?thesis using \<open>get_duckdb_connection env1 = Some b\<close> assms
      by (cases "idx_ratings_animal_rating (db_of b w)")
         (simp_all add: initialize_ratings_table_def create_table_ratings_def
          create_index_ratings_def db_of_set_db set_db_set_db set_db_db_of)
  qed
qed

theorem initialize_ratings_table_idempotent_witness:
  "get_duckdb_connection env_local = get_duckdb_connection env_local \<and>
   initialize_ratings_table env_local (fst (initialize_ratings_table env_local new_world)) =
     initialize_ratings_table env_local new_world \<and>
   snd (initialize_ratings_table env_local new_world) = True \<and>
   local_db (fst (initialize_ratings_table env_local new_world)) =
     \<lparr>ratings = Some [], idx_ratings_animal_rating = True\<rparr>"
proof -
  have c: "get_duckdb_connection env_local = Some Local_duckdb" by code_simp
  have n: "ratings (db_of Local_duckdb new_world) = None"
    by (simp add: db_of_def new_world_def no_tables_def)
  from initialize_ratings_table_idempotent [of env_local env_local new_world] c n show ?thesis
    by (simp add: db_of_def)
qed

text \<open>
  The claim as stated (for every starting state, two calls give what one call gives)
  fails when \<open>get_duckdb_connection\<close> decides differently at the second call: the first
  call creates table and index in the hosted database, which then cannot be reached,
  and the second call creates them in the local database too. Both calls return
  \<open>True\<close>.
\<close>

theorem initialize_ratings_table_other_database_counterexample:
  "snd (initialize_ratings_table env_hosted new_world) = True \<and>
   snd (initialize_ratings_table env_hosted_lost
          (fst (initialize_ratings_table env_hosted new_world))) = True \<and>
   local_db (fst (initialize_ratings_table env_hosted new_world)) = no_tables \<and>
   local_db (fst (initialize_ratings_table env_hosted_lost
          (fst (initialize_ratings_table env_hosted new_world)))) =
     \<lparr>ratings = Some [], idx_ratings_animal_rating = True\<rparr> \<and>
   fst (initialize_ratings_table env_hosted_lost
          (fst (initialize_ratings_table env_hosted new_world))) \<noteq>
     fst (initialize_ratings_table env_hosted new_world)"
proof -
  have first: "snd (initialize_ratings_table env_hosted new_world) = True"
    by code_simp
  have second: "snd (initialize_ratings_table env_hosted_lost
          (fst (initialize_ratings_table env_hosted new_world))) = True"
    by code_simp
  have one: "local_db (fst (initialize_ratings_table env_hosted new_world)) = no_tables"
    by (simp add: initialize_ratings_table_def get_duckdb_connection_def env_hosted_def
        create_table_ratings_def create_index_ratings_def new_world_def no_tables_def
        db_of_def set_db_def)
  have two: "local_db (fst (initialize_ratings_table env_hosted_lost
          (fst (initialize_ratings_table env_hosted new_world)))) =
     \<lparr>ratings = Some [], idx_ratings_animal_rating = True\<rparr>"
    by (simp add: initialize_ratings_table_def get_duckdb_connection_def env_hosted_def
        env_hosted_lost_def create_table_ratings_def create_index_ratings_def new_world_def
        no_tables_def db_of_def set_db_def)
  have differ: "fst (initialize_ratings_table env_hosted_lost
          (fst (initialize_ratings_table env_hosted new_world))) \<noteq>
     fst (initialize_ratings_table env_hosted new_world)"
  proof
    assume "fst (initialize_ratings_table env_hosted_lost
          (fst (initialize_ratings_table env_hosted new_world))) =
     fst (initialize_ratings_table env_hosted new_world)"
    then have "local_db (fst (initialize_ratings_table env_hosted_lost
          (fst (initialize_ratings_table env_hosted new_world)))) =
     local_db (fst (initialize_ratings_table env_hosted new_world))"
      by simp
    with one two show False by (simp add: no_tables_def)
  qed
  from first second one two differ show ?thesis by (simp only: simp_thms)
qed

section \<open>The ratings summary\<close>

lemma count_rows_pos:
  "(0 < count_rows a r rows) = (\<exists>x \<in> set rows. rating x = r \<and> animal_name x = a)"
  by (auto simp: count_rows_def filter_empty_conv)

lemma set_group_counts:
  "set (group_counts r rows) = {(a, n). n = count_rows a r rows \<and> 0 < n}"
  by (auto simp: group_counts_def count_rows_pos)

lemma distinct_group_counts: "distinct (map fst (group_counts r rows))"
  by (simp add: group_counts_def comp_def)

lemma set_order_by_n_desc: "set (order_by_n_desc gs) = set gs"
  by (simp add: order_by_n_desc_def)


lemma distinct_order_by_n_desc:
  "distinct (map fst gs) \<Longrightarrow> distinct (map fst (order_by_n_desc gs))"
  by (simp add: distinct_map set_order_by_n_desc) (simp add: order_by_n_desc_def)

lemma sorted_order_by_n_desc: "sorted_wrt (\<lambda>p q. snd q \<le> snd p) (order_by_n_desc gs)"
proof -
  have "sorted (map (\<lambda>p. - int (snd p)) (order_by_n_desc gs))"
    unfolding order_by_n_desc_def by (rule sorted_sort_key)
  then show ?thesis by (simp add: sorted_map)
qed

lemma top10_subset: "set (top10 r rows) \<subseteq> set (group_counts r rows)"
  unfolding top10_def using set_take_subset [of 10 "order_by_n_desc (group_counts r rows)"]
  by (simp add: set_order_by_n_desc)

lemma length_top10: "length (top10 r rows) \<le> 10"
  by (simp add: top10_def)

lemma distinct_top10: "distinct (map fst (top10 r rows))"
proof -
  have "distinct (map fst (order_by_n_desc (group_counts r rows)))"
    by (rule distinct_order_by_n_desc) (rule distinct_group_counts)
  then have "distinct (take 10 (map fst (order_by_n_desc (group_counts r rows))))"
    by (rule distinct_take)
  then show ?thesis by (simp add: top10_def take_map)
qed

lemma sorted_top10: "sorted_wrt (\<lambda>p q. snd q \<le> snd p) (top10 r rows)"
  unfolding top10_def by (rule sorted_wrt_take) (rule sorted_order_by_n_desc)

lemma top10_entry:
  "(a, n) \<in> set (top10 r rows) \<Longrightarrow> n = count_rows a r rows \<and> 0 < n"
  using top10_subset [of r rows] by (auto simp: set_group_counts)

lemma top10_cut:
  assumes "0 < count_rows a r rows" and "a \<notin> fst ` set (top10 r rows)"
  shows "length (top10 r rows) = 10 \<and> (\<forall>p \<in> set (top10 r rows). count_rows a r rows \<le> snd p)"
proof -
  let ?ys = "order_by_n_desc (group_counts r rows)"
  let ?g = "(a, count_rows a r rows)"
  have "?g \<in> set ?ys" using assms(1) by (simp add: set_order_by_n_desc set_group_counts)
  moreover have "?g \<notin> set (take 10 ?ys)"
    using assms(2) by (force simp: top10_def)
  moreover have split: "?ys = take 10 ?ys @ drop 10 ?ys" by simp
  ultimately have in_drop: "?g \<in> set (drop 10 ?ys)"
    by (metis Un_iff set_append)
  then have "drop 10 ?ys \<noteq> []" by auto
  then have len: "length (take 10 ?ys) = 10" by simp
  have "sorted_wrt (\<lambda>p q. snd q \<le> snd p) (take 10 ?ys @ drop 10 ?ys)"
    using sorted_order_by_n_desc [of "group_counts r rows"] by simp
  from this [unfolded sorted_wrt_append] have "\<forall>p \<in> set (take 10 ?ys). \<forall>q \<in> set (drop 10 ?ys). snd q \<le> snd p"
    by blast
  with in_drop have "\<forall>p \<in> set (take 10 ?ys). count_rows a r rows \<le> snd p" by force
  with len show ?thesis by (simp add: top10_def)
qed

lemma top10_is_spec_top10: "spec_top10 r rows (top10 r rows)"
proof -
  have a: "list_all (\<lambda>p. snd p = count_rows (fst p) r rows \<and> 0 < snd p) (top10 r rows)"
    using top10_entry [of _ _ r rows] by (auto simp: list_all_iff)
  have b: "list_all (\<lambda>x. rating x \<noteq> r \<or> animal_name x \<in> set (map fst (top10 r rows)) \<or>
                  (length (top10 r rows) = 10 \<and>
                   list_all (\<lambda>p. count_rows (animal_name x) r rows \<le> snd p) (top10 r rows))) rows"
  proof (unfold list_all_iff, rule ballI)
    fix x assume x: "x \<in> set rows"
    show "rating x \<noteq> r \<or> animal_name x \<in> set (map fst (top10 r rows)) \<or>
          (length (top10 r rows) = 10 \<and>
           (\<forall>p \<in> set (top10 r rows). count_rows (animal_name x) r rows \<le> snd p))"
    proof (cases "rating x = r \<and> animal_name x \<notin> fst ` set (top10 r rows)")
      case True
      then have "0 < count_rows (animal_name x) r rows" using x by (auto simp: count_rows_pos)
      from top10_cut [OF this] True show ?thesis by simp
    next
      case False
      then show ?thesis by auto
    qed
  qed
  show ?thesis
    unfolding spec_top10_def using length_top10 distinct_top10 sorted_top10 a b by simp
qed

text \<open>
  Claim C7, amended: \<open>get_ratings_summary\<close> returns the sentinel \<open>None\<close> exactly when no
  connection is made, or the table of the database it connects to is absent or empty;
  otherwise each of its two lists is a top-10 list (\<open>spec_top10\<close>) of the rows with
  that rating value: at most 10 pairs, one per animal, with the animal's count, in
  descending order of count, cut after the first 10.
\<close>

theorem get_ratings_summary_top10:
  "(get_ratings_summary env w = None) =
     (get_duckdb_connection env = None \<or>
      (\<exists>b. get_duckdb_connection env = Some b \<and>
           (ratings (db_of b w) = None \<or> ratings (db_of b w) = Some []))) \<and>
   (\<forall>s. get_ratings_summary env w = Some s \<longrightarrow>
      (\<exists>b rows. get_duckdb_connection env = Some b \<and> ratings (db_of b w) = Some rows \<and>
         spec_top10 ''Literally in love'' rows (love s) \<and>
         spec_top10 ''Not my type'' rows (nope s)))"
proof (cases "get_duckdb_connection env")
  case None
  then show ?thesis by (simp add: get_ratings_summary_def)
next
  case (Some b)
  show ?thesis
  proof (cases "ratings (db_of b w)")
    case None
    then show ?thesis using Some by (simp add: get_ratings_summary_def)
  next
    case (Some rows)
    then show ?thesis using \<open>get_duckdb_connection env = Some b\<close>
      by (cases "rows = []") (auto simp: get_ratings_summary_def top10_is_spec_top10)
  qed
qed

theorem get_ratings_summary_top10_witness:
  "get_ratings_summary env_local (world_of few_rows) =
     Some \<lparr>love = [(''Shark'', 2), (''Sea Otter'', 1)], nope = [(''Sea Otter'', 1)]\<rparr> \<and>
   spec_top10 ''Literally in love'' few_rows [(''Shark'', 2), (''Sea Otter'', 1)] \<and>
   spec_top10 ''Not my type'' few_rows [(''Sea Otter'', 1)]"
proof -
  have s: "get_ratings_summary env_local (world_of few_rows) =
     Some \<lparr>love = [(''Shark'', 2), (''Sea Otter'', 1)], nope = [(''Sea Otter'', 1)]\<rparr>"
    by code_simp
  have c: "get_duckdb_connection env_local = Some Local_duckdb" by code_simp
  have r: "ratings (db_of Local_duckdb (world_of few_rows)) = Some few_rows"
    by (simp add: db_of_def world_of_def)
  from get_ratings_summary_top10 [of env_local "world_of few_rows"] s c r show ?thesis
    by simp
qed

text \<open>
  The claim as stated (the sentinel exactly when the table is empty or absent) fails
  when no connection can be opened: the table has four rows and the result is \<open>None\<close>.
\<close>

theorem get_ratings_summary_sentinel_counterexample:
  "get_ratings_summary env_down (world_of few_rows) = None \<and>
   ratings (local_db (world_of few_rows)) = Some few_rows \<and>
   few_rows \<noteq> []"
  by (simp add: get_ratings_summary_def get_duckdb_connection_def env_down_def world_of_def few_rows_def)

section \<open>A saved rating and the next summary\<close>

lemma save_rating_to_duckdb_True:
  assumes "save_rating_to_duckdb env a r sid w = (w', True)"
  shows "\<exists>b rows. get_duckdb_connection env = Some b \<and> ratings (db_of b w) = Some rows \<and>
           gen_random_uuid env \<notin> set (map row_id rows) \<and>
           w' = set_db b ((db_of b w)\<lparr>ratings := Some (rows @
                  [\<lparr>row_id = gen_random_uuid env, row_timestamp = current_timestamp env,
                    session_id = sid, animal_name = a, rating = r\<rparr>])\<rparr>) w"
  using assms
  by (auto simp: save_rating_to_duckdb_def insert_rating_def
      split: option.splits if_splits sum.splits)











section \<open>Saving a rating: the fallback file\<close>

lemma save_rating_to_duckdb_False:
  "\<not> snd (save_rating_to_duckdb env a r sid w) \<Longrightarrow> fst (save_rating_to_duckdb env a r sid w) = w"
  by (auto simp: save_rating_to_duckdb_def split: option.splits sum.splits)

lemma save_rating_db_ok:
  "snd (save_rating_to_duckdb env a r sid w) \<Longrightarrow>
   save_rating env a r sid w = fst (save_rating_to_duckdb env a r sid w)"
  by (simp add: save_rating_def Let_def)

lemma save_rating_db_failed:
  "\<not> snd (save_rating_to_duckdb env a r sid w) \<Longrightarrow>
   save_rating env a r sid w =
     w\<lparr>ratings_backup := Some (case ratings_backup w of
                                  None \<Rightarrow> [backup_header, [now_isoformat env, sid, a, r]]
                                | Some recs \<Rightarrow> recs @ [[now_isoformat env, sid, a, r]])\<rparr>"
  by (simp add: save_rating_def Let_def save_rating_to_duckdb_False split: option.splits)

lemma ratings_backup_set_db: "ratings_backup (set_db b d w) = ratings_backup w"
  by (cases b) (simp_all add: set_db_def)

lemma save_rating_to_duckdb_backup:
  "ratings_backup (fst (save_rating_to_duckdb env a r sid w)) = ratings_backup w"
  by (auto simp: save_rating_to_duckdb_def ratings_backup_set_db split: option.splits sum.splits)

text \<open>
  Claim C4: when a rating is submitted (the handler runs with a positive button value
  for an animal not rated yet) and the database write fails, \<open>save_rating\<close> leaves both
  databases as they are and adds exactly one record to the fallback file, carrying
  timestamp, session id, animal name and rating in this order, after a header record
  only when the file did not exist; when the database write succeeds the file is not
  touched. In both cases the handler shows the notification of the rating.
\<close>

theorem save_rating_fallback:
  assumes "rated_animals st a = None" and "0 < v"
  shows "notifications (rating_handler env sid a rt rk (Some v) st) =
           notifications st @ [if rk = ''love'' then Recorded_love a else Noted_not_your_type a] \<and>
         stores (rating_handler env sid a rt rk (Some v) st) = save_rating env a rt sid (stores st) \<and>
         (\<not> snd (save_rating_to_duckdb env a rt sid (stores st)) \<longrightarrow>
            motherduck_db (save_rating env a rt sid (stores st)) = motherduck_db (stores st) \<and>
            local_db (save_rating env a rt sid (stores st)) = local_db (stores st) \<and>
            ratings_backup (save_rating env a rt sid (stores st)) =
              Some (case ratings_backup (stores st) of
                      None \<Rightarrow> [backup_header, [now_isoformat env, sid, a, rt]]
                    | Some recs \<Rightarrow> recs @ [[now_isoformat env, sid, a, rt]])) \<and>
         (snd (save_rating_to_duckdb env a rt sid (stores st)) \<longrightarrow>
            ratings_backup (save_rating env a rt sid (stores st)) = ratings_backup (stores st))"
proof -
  have n: "notifications (rating_handler env sid a rt rk (Some v) st) =
           notifications st @ [if rk = ''love'' then Recorded_love a else Noted_not_your_type a]"
    using assms by (simp add: rating_handler_def)
  have s: "stores (rating_handler env sid a rt rk (Some v) st) = save_rating env a rt sid (stores st)"
    using assms by (simp add: rating_handler_def)
  have f: "\<not> snd (save_rating_to_duckdb env a rt sid (stores st)) \<longrightarrow>
            motherduck_db (save_rating env a rt sid (stores st)) = motherduck_db (stores st) \<and>
            local_db (save_rating env a rt sid (stores st)) = local_db (stores st) \<and>
            ratings_backup (save_rating env a rt sid (stores st)) =
              Some (case ratings_backup (stores st) of
                      None \<Rightarrow> [backup_header, [now_isoformat env, sid, a, rt]]
                    | Some recs \<Rightarrow> recs @ [[now_isoformat env, sid, a, rt]])"
    by (simp add: save_rating_db_failed)
  have d: "snd (save_rating_to_duckdb env a rt sid (stores st)) \<longrightarrow>
            ratings_backup (save_rating env a rt sid (stores st)) = ratings_backup (stores st)"
    by (simp add: save_rating_db_ok save_rating_to_duckdb_backup)
  from n s f d show ?thesis by blast
qed

theorem save_rating_fallback_witness:
  "rated_animals new_session ''Shark'' = None \<and> (0::int) < 1 \<and>
   \<not> snd (save_rating_to_duckdb env_down ''Shark'' ''Literally in love''
            ''session_20250917_095900_11aa22bb'' (stores new_session)) \<and>
   notifications (rating_handler env_down ''session_20250917_095900_11aa22bb'' ''Shark''
      ''Literally in love'' ''love'' (Some 1) new_session) = [Recorded_love ''Shark''] \<and>
   ratings_backup (stores (rating_handler env_down ''session_20250917_095900_11aa22bb'' ''Shark''
      ''Literally in love'' ''love'' (Some 1) new_session)) =
     Some [[''timestamp'', ''session_id'', ''animal_name'', ''rating''],
           [''2025-09-17T10:00:00'', ''session_20250917_095900_11aa22bb'', ''Shark'',
            ''Literally in love'']]"
proof -
  have r: "rated_animals new_session ''Shark'' = None" by (simp add: new_session_def)
  have v: "(0::int) < 1" by simp
  have f: "\<not> snd (save_rating_to_duckdb env_down ''Shark'' ''Literally in love''
            ''session_20250917_095900_11aa22bb'' (stores new_session))"
    by (simp add: save_rating_to_duckdb_def get_duckdb_connection_def env_down_def)
  have b: "ratings_backup (stores new_session) = None"
    by (simp add: new_session_def new_world_def)
  have n: "notifications new_session = []" by (simp add: new_session_def)
  have t: "now_isoformat env_down = ''2025-09-17T10:00:00''" by (simp add: env_down_def)
  from save_rating_fallback [OF r v, of env_down "''session_20250917_095900_11aa22bb''"
      "''Literally in love''" "''love''"] r f b n t
  show ?thesis by (simp add: backup_header_def)
qed

section \<open>At most one rating per session and animal\<close>

lemma new_session_id_not_header: "new_session_id stamp hex8 \<noteq> ''session_id''"
proof (cases stamp)
  case Nil
  then show ?thesis by (simp add: new_session_id_def)
next
  case (Cons c cs)
  then show ?thesis by (cases cs) (simp_all add: new_session_id_def)
qed

lemma rating_handler_rated:
  "rated_animals (rating_handler env sid a rt rk bv st) =
     (if (\<exists>v. bv = Some v \<and> 0 < v) \<and> rated_animals st a = None
      then (rated_animals st)(a \<mapsto> rk) else rated_animals st)"
  by (auto simp: rating_handler_def split: option.splits)

lemma rating_handler_stores:
  "stores (rating_handler env sid a rt rk bv st) =
     (if (\<exists>v. bv = Some v \<and> 0 < v) \<and> rated_animals st a = None
      then save_rating env a rt sid (stores st) else stores st)"
  by (auto simp: rating_handler_def split: option.splits)

lemma rating_handler_already_rated:
  "rated_animals st a \<noteq> None \<Longrightarrow> rating_handler env sid a rt rk bv st = st"
  by (auto simp: rating_handler_def split: option.splits)

lemma rating_handler_keeps:
  "rated_animals st b = Some k \<Longrightarrow> rated_animals (rating_handler env sid a rt rk bv st) b = Some k"
  by (auto simp: rating_handler_rated)

lemma run_handlers_keeps:
  "rated_animals st b = Some k \<Longrightarrow> rated_animals (run_handlers sid hs st) b = Some k"
proof (induction hs arbitrary: st)
  case Nil
  then show ?case by (simp add: run_handlers_def)
next
  case (Cons h hs)
  have "rated_animals (run_handler sid h st) b = Some k"
    unfolding run_handler_def using Cons.prems by (rule rating_handler_keeps)
  from Cons.IH [OF this] show ?case by (simp add: run_handlers_def)
qed

lemma recorded_save_rating_to_duckdb:
  assumes "snd (save_rating_to_duckdb env a r sid w)"
  shows "recorded sid b (fst (save_rating_to_duckdb env a r sid w)) =
           recorded sid b w + (if b = a then 1 else 0)"
proof -
  from assms obtain w' where "save_rating_to_duckdb env a r sid w = (w', True)"
    by (cases "save_rating_to_duckdb env a r sid w") auto
  from save_rating_to_duckdb_True [OF this] this obtain c rows where
    c: "get_duckdb_connection env = Some c" and rows: "ratings (db_of c w) = Some rows" and
    w': "fst (save_rating_to_duckdb env a r sid w) = set_db c ((db_of c w)\<lparr>ratings := Some (rows @
                  [\<lparr>row_id = gen_random_uuid env, row_timestamp = current_timestamp env,
                    session_id = sid, animal_name = a, rating = r\<rparr>])\<rparr>) w"
    by auto
  show ?thesis
    unfolding w' using rows
    by (cases c) (auto simp: recorded_def set_db_def db_of_def rows_for_def)
qed

lemma recorded_save_rating:
  assumes "sid \<noteq> ''session_id''"
  shows "recorded sid b (save_rating env a r sid w) = recorded sid b w + (if b = a then 1 else 0)"
proof (cases "snd (save_rating_to_duckdb env a r sid w)")
  case True
  then show ?thesis by (simp add: save_rating_db_ok recorded_save_rating_to_duckdb)
next
  case False
  then show ?thesis using assms
    by (cases "ratings_backup w")
       (auto simp: save_rating_db_failed recorded_def records_for_def is_record_for_def
          backup_header_def)
qed

lemma recorded_rating_handler:
  assumes "sid \<noteq> ''session_id''"
  shows "recorded sid b (stores (rating_handler env sid a rt rk bv st)) =
           recorded sid b (stores st) +
           (if rated_animals st b = None \<and> rated_animals (rating_handler env sid a rt rk bv st) b \<noteq> None
            then 1 else 0)"
proof (cases "(\<exists>v. bv = Some v \<and> 0 < v) \<and> rated_animals st a = None")
  case True
  then have st: "stores (rating_handler env sid a rt rk bv st) = save_rating env a rt sid (stores st)"
    and ra: "rated_animals (rating_handler env sid a rt rk bv st) = (rated_animals st)(a \<mapsto> rk)"
    by (simp_all add: rating_handler_stores rating_handler_rated)
  show ?thesis
  proof (cases "b = a")
    case True
    with \<open>(\<exists>v. bv = Some v \<and> 0 < v) \<and> rated_animals st a = None\<close> show ?thesis
      unfolding st ra using assms by (simp add: recorded_save_rating)
  next
    case False
    then show ?thesis
      unfolding st ra using assms
      by (cases "rated_animals st b") (simp_all add: recorded_save_rating)
  qed
next
  case False
  then have "rating_handler env sid a rt rk bv st = st"
    by (auto simp: rating_handler_def split: option.splits)
  then show ?thesis by (cases "rated_animals st b") simp_all
qed

lemma recorded_run_handlers:
  assumes "sid \<noteq> ''session_id''"
  shows "recorded sid b (stores (run_handlers sid hs st)) =
           recorded sid b (stores st) +
           (if rated_animals st b = None \<and> rated_animals (run_handlers sid hs st) b \<noteq> None
            then 1 else 0)"
proof (induction hs arbitrary: st)
  case Nil
  then show ?case by (simp add: run_handlers_def del: not_None_eq)
next
  case (Cons h hs)
  let ?st1 = "run_handler sid h st"
  have unfold: "run_handlers sid (h # hs) st = run_handlers sid hs ?st1"
    by (simp add: run_handlers_def)
  have step: "recorded sid b (stores ?st1) = recorded sid b (stores st) +
           (if rated_animals st b = None \<and> rated_animals ?st1 b \<noteq> None then 1 else 0)"
    unfolding run_handler_def using assms by (rule recorded_rating_handler)
  have ih: "recorded sid b (stores (run_handlers sid hs ?st1)) = recorded sid b (stores ?st1) +
           (if rated_animals ?st1 b = None \<and> rated_animals (run_handlers sid hs ?st1) b \<noteq> None
            then 1 else 0)"
    by (rule Cons.IH)
  show ?case
  proof (cases "rated_animals ?st1 b")
    case None
    then have "rated_animals st b = None"
      using rating_handler_keeps [of st b _ "fst h" sid] by (cases "rated_animals st b") (auto simp: run_handler_def)
    with None step ih show ?thesis unfolding unfold by simp
  next
    case (Some k)
    then have "rated_animals (run_handlers sid hs ?st1) b = Some k" by (rule run_handlers_keeps)
    with Some step ih show ?thesis unfolding unfold by simp
  qed
qed

lemma love_click_state:
  "run_handlers ''session_20250917_095900_11aa22bb'' [love_click] new_session =
     \<lparr>rated_animals = [''Shark'' \<mapsto> ''love''], ratings_trigger = 1,
      notifications = [Recorded_love ''Shark''],
      stores = new_world\<lparr>ratings_backup := Some [backup_header,
        [''2025-09-17T10:00:00'', ''session_20250917_095900_11aa22bb'', ''Shark'',
         ''Literally in love'']]\<rparr>\<rparr>"
  by (simp add: run_handlers_def run_handler_def love_click_def rating_handler_def new_session_def
      save_rating_def save_rating_to_duckdb_def get_duckdb_connection_def env_down_def new_world_def)

text \<open>
  Claim C5: in a session (its identifier made as \<open>server\<close> makes it), whatever handler
  runs happen from whatever state, the number of rating events recorded for the
  session and an animal grows by one if the animal became rated in these runs and by
  nothing otherwise, so at most one event is recorded per animal. Once the animal is
  rated with a key, it stays rated with that key through every later run, every run of
  a handler for it changes nothing (no save), and its card shows the acknowledgment of
  that key instead of the buttons. A handler is taken by the animal name it closes
  over, and a run of a handler is taken as one step.
\<close>

theorem at_most_one_rating_per_animal:
  assumes "sid = new_session_id stamp hex8"
  shows "recorded sid a (stores (run_handlers sid hs st)) =
           recorded sid a (stores st) +
             (if rated_animals st a = None \<and> rated_animals (run_handlers sid hs st) a \<noteq> None
              then 1 else 0) \<and>
         (\<forall>k. rated_animals st a = Some k \<longrightarrow>
            rated_animals (run_handlers sid hs st) a = Some k \<and>
            stores (rating_handler env sid a rt rk bv st) = stores st \<and>
            rating_handler env sid a rt rk bv st = st \<and>
            rating_area_of (rated_animals st) a =
              (if k = ''love'' then Thank_you_love else Thank_you_nope))"
proof -
  have sid: "sid \<noteq> ''session_id''" using assms by (simp add: new_session_id_not_header)
  have one: "recorded sid a (stores (run_handlers sid hs st)) =
           recorded sid a (stores st) +
             (if rated_animals st a = None \<and> rated_animals (run_handlers sid hs st) a \<noteq> None
              then 1 else 0)"
    using sid by (rule recorded_run_handlers)
  have two: "\<forall>k. rated_animals st a = Some k \<longrightarrow>
            rated_animals (run_handlers sid hs st) a = Some k \<and>
            stores (rating_handler env sid a rt rk bv st) = stores st \<and>
            rating_handler env sid a rt rk bv st = st \<and>
            rating_area_of (rated_animals st) a =
              (if k = ''love'' then Thank_you_love else Thank_you_nope)"
    by (auto simp: run_handlers_keeps rating_handler_already_rated rating_area_of_def)
  from one two show ?thesis by blast
qed

theorem at_most_one_rating_per_animal_witness:
  "''session_20250917_095900_11aa22bb'' = new_session_id ''20250917_095900'' ''11aa22bb'' \<and>
   recorded ''session_20250917_095900_11aa22bb'' ''Shark''
     (stores (run_handlers ''session_20250917_095900_11aa22bb'' [love_click, nope_click] new_session)) = 1 \<and>
   rated_animals (run_handlers ''session_20250917_095900_11aa22bb'' [love_click] new_session) ''Shark'' =
     Some ''love'' \<and>
   rated_animals (run_handlers ''session_20250917_095900_11aa22bb'' [nope_click]
     (run_handlers ''session_20250917_095900_11aa22bb'' [love_click] new_session)) ''Shark'' = Some ''love'' \<and>
   rating_handler env_local ''session_20250917_095900_11aa22bb'' ''Shark'' ''Not my type'' ''nope'' (Some 1)
     (run_handlers ''session_20250917_095900_11aa22bb'' [love_click] new_session) =
     run_handlers ''session_20250917_095900_11aa22bb'' [love_click] new_session \<and>
   rating_area_of (rated_animals (run_handlers ''session_20250917_095900_11aa22bb'' [love_click] new_session))
     ''Shark'' = Thank_you_love"
proof -
  let ?sid = "''session_20250917_095900_11aa22bb''"
  let ?st1 = "run_handlers ?sid [love_click] new_session"
  have sid: "?sid = new_session_id ''20250917_095900'' ''11aa22bb''"
    by (simp add: new_session_id_def)
  have r0: "rated_animals new_session ''Shark'' = None" by (simp add: new_session_def)
  have c0: "recorded ?sid ''Shark'' (stores new_session) = 0"
    by (simp add: recorded_def rows_for_def records_for_def new_session_def new_world_def no_tables_def)
  have r1: "rated_animals ?st1 ''Shark'' = Some ''love''" by (simp add: love_click_state)
  have two: "run_handlers ?sid [love_click, nope_click] new_session = run_handlers ?sid [nope_click] ?st1"
    by (simp add: run_handlers_def)
  from at_most_one_rating_per_animal [OF sid, of "''Shark''" "[nope_click]" ?st1 env_local
      "''Not my type''" "''nope''" "Some 1"] r1
  have keep: "rated_animals (run_handlers ?sid [nope_click] ?st1) ''Shark'' = Some ''love''"
    and noop: "rating_handler env_local ?sid ''Shark'' ''Not my type'' ''nope'' (Some 1) ?st1 = ?st1"
    and area: "rating_area_of (rated_animals ?st1) ''Shark'' = Thank_you_love"
    by simp_all
  from at_most_one_rating_per_animal [OF sid, of "''Shark''" "[love_click, nope_click]" new_session] r0 c0 keep two
  have one: "recorded ?sid ''Shark'' (stores (run_handlers ?sid [love_click, nope_click] new_session)) = 1"
    by simp
  from sid one r1 keep noop area show ?thesis by blast
qed

end
